theory Spec2Isabelle
  imports Main "HOL-Library.AList"
begin

section \<open>Relay-style Connection/Edge generator (lib/utils/appsync.ts)\<close>

subsection \<open>Descriptors of the schema library\<close>

text \<open>
  Object types are JavaScript objects: they have an identity, and \<open>==\<close> on two of them
  compares identities. An object type is therefore referred to by its address in a store,
  and the store is the list of all object types constructed so far (address = index).
\<close>

type_synonym ref = nat

text \<open>
  Modelled from the spec: the field type descriptor of the schema library
  (\<open>GraphqlType\<close>), whose declaration is not part of the repository. It tags a field as a
  scalar kind or as a reference to an object type; "list" and "required" are two
  independent modifiers.
\<close>

datatype Type = T_ID | T_STRING | T_INT | T_FLOAT | T_BOOLEAN | T_INTERMEDIATE ref

record GraphqlType =
  kind :: Type
  isList :: bool
  isRequired :: bool

text \<open>
  Modelled from the spec: the options of a field type (\<open>{isList: ..., isRequired: ...}\<close>);
  every option may be absent, and an absent option counts as false.
\<close>

record BaseTypeOptions =
  opt_isList :: "bool option"
  opt_isRequired :: "bool option"

definition no_options :: BaseTypeOptions where
  "no_options = \<lparr>opt_isList = None, opt_isRequired = None\<rparr>"

definition list_option :: BaseTypeOptions where
  "list_option = \<lparr>opt_isList = Some True, opt_isRequired = None\<rparr>"

definition required_option :: BaseTypeOptions where
  "required_option = \<lparr>opt_isList = None, opt_isRequired = Some True\<rparr>"

definition new_GraphqlType :: "Type \<Rightarrow> BaseTypeOptions \<Rightarrow> GraphqlType" where
  "new_GraphqlType t options =
     \<lparr>kind = t,
      isList = (case opt_isList options of None \<Rightarrow> False | Some b \<Rightarrow> b),
      isRequired = (case opt_isRequired options of None \<Rightarrow> False | Some b \<Rightarrow> b)\<rparr>"

text \<open>
  Modelled from the spec: the object type descriptor of the schema library
  (\<open>ObjectType\<close>), a name and a dictionary from field names to field types. The
  dictionary is kept as an association list in the order in which the keys were created.
\<close>

record ObjectType =
  name :: string
  definition_of :: "(string \<times> GraphqlType) list"

type_synonym heap = "ObjectType list"

datatype error = NotAnObject ref

definition valid :: "heap \<Rightarrow> ref \<Rightarrow> bool" where
  "valid h r = (r < length h)"

definition deref :: "heap \<Rightarrow> ref \<Rightarrow> error + ObjectType" where
  "deref h r = (if valid h r then Inr (h ! r) else Inl (NotAnObject r))"

text \<open>
  An object literal \<open>{k1: v1, ..., [kn]: vn}\<close> creates its properties from left to right;
  a key that is already there keeps its place and takes the later value.
\<close>

definition object_literal :: "(string \<times> 'v) list \<Rightarrow> (string \<times> 'v) list" where
  "object_literal props = foldl (\<lambda>obj (k, v). AList.update k v obj) [] props"

text \<open>\<open>new ObjectType(name, {definition: d})\<close>: a fresh object, at the next address.\<close>

definition new_ObjectType ::
  "string \<Rightarrow> (string \<times> GraphqlType) list \<Rightarrow> heap \<Rightarrow> ref \<times> heap" where
  "new_ObjectType n d h = (length h, h @ [\<lparr>name = n, definition_of = d\<rparr>])"

text \<open>
  Modelled from the spec: \<open>type.attribute(options)\<close> of the schema library, which builds a
  plain, list or required reference to the object type it is called on.
\<close>

definition attribute :: "heap \<Rightarrow> ref \<Rightarrow> BaseTypeOptions \<Rightarrow> error + GraphqlType" where
  "attribute h r options =
     (if valid h r then Inr (new_GraphqlType (T_INTERMEDIATE r) options)
      else Inl (NotAnObject r))"

subsection \<open>Strings\<close>

text \<open>
  Names of schema types are ASCII identifiers; \<open>toLowerCase\<close> is modelled on the letters
  \<open>A\<close> to \<open>Z\<close> and leaves every other character as it is.
\<close>

definition toLowerCase_char :: "char \<Rightarrow> char" where
  "toLowerCase_char c =
     (let n = (of_char c :: nat) in if 65 \<le> n \<and> n \<le> 90 then char_of (n + 32) else c)"

definition toLowerCase :: "string \<Rightarrow> string" where
  "toLowerCase s = map toLowerCase_char s"

subsection \<open>The constants of the module\<close>

definition int_t :: GraphqlType where
  "int_t = new_GraphqlType T_INT no_options"

definition string_t :: GraphqlType where
  "string_t = new_GraphqlType T_STRING no_options"

definition required_string :: GraphqlType where
  "required_string = new_GraphqlType T_STRING required_option"

definition required_boolean :: GraphqlType where
  "required_boolean = new_GraphqlType T_BOOLEAN required_option"

text \<open>
  \<open>PageInfo\<close> is constructed when the module is loaded, in the empty store, so that it is
  the object at address 0 of every later store.
\<close>

definition module_init :: "ref \<times> heap" where
  "module_init =
     new_ObjectType ''PageInfo''
       (object_literal
          [(''hasNextPage'', required_boolean),
           (''hasPreviousPage'', required_boolean),
           (''startCursor'', string_t),
           (''endCursor'', string_t)]) []"

definition PageInfo :: ref where
  "PageInfo = fst module_init"

definition module_heap :: heap where
  "module_heap = snd module_init"

text \<open>A store in which the module has been loaded.\<close>

definition loaded :: "heap \<Rightarrow> bool" where
  "loaded h = (take (length module_heap) h = module_heap)"

subsection \<open>The generator\<close>

record baseOptions =
  base :: ref
  target :: ref

text \<open>
  The pluralisation library is not part of the repository: \<open>pluralize\<close> is a parameter
  of every function that calls it.
\<close>

definition obtainName ::
  "(string \<Rightarrow> string) \<Rightarrow> heap \<Rightarrow> string \<Rightarrow> baseOptions \<Rightarrow> error + string" where
  "obtainName pluralize h suffix options =
     (let isSame = (base options = target options) in
      case (if isSame then Inr ''''
            else (case deref h (base options) of
                    Inl e \<Rightarrow> Inl e | Inr b \<Rightarrow> Inr (name b))) of
        Inl e \<Rightarrow> Inl e
      | Inr prefix \<Rightarrow>
          (case deref h (target options) of
             Inl e \<Rightarrow> Inl e
           | Inr t \<Rightarrow> Inr (prefix @ pluralize (name t) @ suffix)))"

definition generateEdge ::
  "(string \<Rightarrow> string) \<Rightarrow> heap \<Rightarrow> baseOptions \<Rightarrow> error + (ref \<times> heap)" where
  "generateEdge pluralize h options =
     (case obtainName pluralize h ''Edge'' options of
        Inl e \<Rightarrow> Inl e
      | Inr n \<Rightarrow>
          (case attribute h (target options) no_options of
             Inl e \<Rightarrow> Inl e
           | Inr node \<Rightarrow>
               Inr (new_ObjectType n
                      (object_literal [(''node'', node), (''cursor'', required_string)]) h)))"

definition generateConnection ::
  "(string \<Rightarrow> string) \<Rightarrow> heap \<Rightarrow> ref \<Rightarrow> baseOptions \<Rightarrow> error + (ref \<times> heap)" where
  "generateConnection pluralize h edge options =
     (case obtainName pluralize h ''Connection'' options of
        Inl e \<Rightarrow> Inl e
      | Inr n \<Rightarrow>
          (case deref h (target options) of
             Inl e \<Rightarrow> Inl e
           | Inr t \<Rightarrow>
               (let plural = toLowerCase (pluralize (name t)) in
                case attribute h PageInfo required_option of
                  Inl e \<Rightarrow> Inl e
                | Inr pageInfo \<Rightarrow>
                    (case attribute h edge list_option of
                       Inl e \<Rightarrow> Inl e
                     | Inr edges \<Rightarrow>
                         (case attribute h (target options) list_option of
                            Inl e \<Rightarrow> Inl e
                          | Inr targets \<Rightarrow>
                              Inr (new_ObjectType n
                                     (object_literal
                                        [(''pageInfo'', pageInfo),
                                         (''edges'', edges),
                                         (''totalCount'', int_t),
                                         (plural, targets)]) h))))))"

record edge_and_connection =
  edge :: ref
  connection :: ref

definition generateConnectionAndEdge ::
  "(string \<Rightarrow> string) \<Rightarrow> heap \<Rightarrow> baseOptions \<Rightarrow> error + (edge_and_connection \<times> heap)" where
  "generateConnectionAndEdge pluralize h options =
     (case generateEdge pluralize h options of
        Inl err \<Rightarrow> Inl err
      | Inr (e, h1) \<Rightarrow>
          (case generateConnection pluralize h1 e options of
             Inl err \<Rightarrow> Inl err
           | Inr (c, h2) \<Rightarrow>
               Inr (\<lparr>edge = e, connection = c\<rparr>, h2)))"

subsection \<open>Descriptors by value\<close>

text \<open>
  Two descriptors are equal by value when they have the same name and the same fields:
  the same field names, in the same order, with the same modifiers and the same scalar
  kind or the same name of the object type referred to.
\<close>

definition type_shape :: "heap \<Rightarrow> Type \<Rightarrow> Type + string" where
  "type_shape h k =
     (case k of
        T_INTERMEDIATE r \<Rightarrow> (case deref h r of Inl err \<Rightarrow> Inl k | Inr ob \<Rightarrow> Inr (name ob))
      | _ \<Rightarrow> Inl k)"

definition field_shape ::
  "heap \<Rightarrow> string \<times> GraphqlType \<Rightarrow> string \<times> (Type + string) \<times> bool \<times> bool" where
  "field_shape h f = (fst f, type_shape h (kind (snd f)), isList (snd f), isRequired (snd f))"

definition shape ::
  "heap \<Rightarrow> ref \<Rightarrow> (string \<times> (string \<times> (Type + string) \<times> bool \<times> bool) list) option" where
  "shape h r =
     (case deref h r of
        Inl err \<Rightarrow> None
      | Inr ob \<Rightarrow> Some (name ob, map (field_shape h) (definition_of ob)))"

definition equal_by_value :: "heap \<Rightarrow> ref \<Rightarrow> ref \<Rightarrow> bool" where
  "equal_by_value h r r' = (shape h r \<noteq> None \<and> shape h r = shape h r')"

text \<open>
  Two calls of the combined generator, one after the other, with the object types \<open>between\<close>
  constructed after the first call and before the second.
\<close>

definition generate_twice ::
  "(string \<Rightarrow> string) \<Rightarrow> heap \<Rightarrow> baseOptions \<Rightarrow> ObjectType list \<Rightarrow> baseOptions \<Rightarrow>
     error + ((edge_and_connection \<times> edge_and_connection) \<times> heap)" where
  "generate_twice pluralize h options1 between options2 =
     (case generateConnectionAndEdge pluralize h options1 of
        Inl err \<Rightarrow> Inl err
      | Inr (r1, h1) \<Rightarrow>
          (case generateConnectionAndEdge pluralize (h1 @ between) options2 of
             Inl err \<Rightarrow> Inl err
           | Inr (r2, h2) \<Rightarrow> Inr ((r1, r2), h2)))"

definition pairs_equal_by_value ::
  "error + ((edge_and_connection \<times> edge_and_connection) \<times> heap) \<Rightarrow>
     baseOptions \<Rightarrow> baseOptions \<Rightarrow> bool" where
  "pairs_equal_by_value res options1 options2 =
     (case res of
        Inl err \<Rightarrow> False
      | Inr (rs, h) \<Rightarrow>
          equal_by_value h (base options1) (base options2) \<and>
          equal_by_value h (target options1) (target options2))"

definition same_shapes ::
  "error + ((edge_and_connection \<times> edge_and_connection) \<times> heap) \<Rightarrow> bool" where
  "same_shapes res =
     (case res of
        Inl err \<Rightarrow> False
      | Inr ((r1, r2), h) \<Rightarrow>
          equal_by_value h (edge r1) (edge r2) \<and>
          equal_by_value h (connection r1) (connection r2))"

definition distinct_instances ::
  "error + ((edge_and_connection \<times> edge_and_connection) \<times> heap) \<Rightarrow> bool" where
  "distinct_instances res =
     (case res of
        Inl err \<Rightarrow> False
      | Inr ((r1, r2), h) \<Rightarrow> distinct [edge r1, connection r1, edge r2, connection r2])"

text \<open>The descriptor that a generator constructed, read in the store that it returned.\<close>

definition result_object :: "error + (ref \<times> heap) \<Rightarrow> ObjectType option" where
  "result_object res =
     (case res of
        Inl err \<Rightarrow> None
      | Inr (r, h) \<Rightarrow> (case deref h r of Inl err \<Rightarrow> None | Inr ob \<Rightarrow> Some ob))"

subsection \<open>Concrete inputs\<close>

text \<open>The regular plural in \<open>-s\<close>, which is the plural of the nouns used below.\<close>

definition pluralize_s :: "string \<Rightarrow> string" where
  "pluralize_s s = s @ ''s''"

text \<open>
  A store after the module was loaded and six object types were constructed:
  \<open>Student\<close> at address 1, \<open>Course\<close> at 2, two object types named \<open>Review\<close> at 3 and 4,
  \<open>Edge\<close> at 5, and at 6 the Edge descriptor of base \<open>Student\<close> and target \<open>Edge\<close>.
\<close>

definition example_heap :: heap where
  "example_heap =
     module_heap @
       [\<lparr>name = ''Student'', definition_of = [(''name'', string_t)]\<rparr>,
        \<lparr>name = ''Course'', definition_of = [(''title'', string_t)]\<rparr>,
        \<lparr>name = ''Review'', definition_of = [(''comment'', string_t)]\<rparr>,
        \<lparr>name = ''Review'', definition_of = [(''comment'', string_t)]\<rparr>,
        \<lparr>name = ''Edge'', definition_of = [(''weight'', int_t)]\<rparr>,
        \<lparr>name = ''StudentEdgesEdge'',
         definition_of =
           [(''node'', \<lparr>kind = T_INTERMEDIATE 5, isList = False, isRequired = False\<rparr>),
            (''cursor'', required_string)]\<rparr>]"

section \<open>Properties\<close>

subsection \<open>What the functions return on descriptors of the store\<close>

lemma PageInfo_address: "PageInfo = 0"
  by (simp add: PageInfo_def module_init_def new_ObjectType_def)

lemma valid_PageInfo: "valid h r \<Longrightarrow> valid h PageInfo"
  by (cases h) (simp_all add: valid_def PageInfo_address)

lemma obtainName_Inr:
  "valid h b \<Longrightarrow> valid h t \<Longrightarrow>
   obtainName pl h s \<lparr>base = b, target = t\<rparr> =
     Inr ((if b = t then [] else name (h ! b)) @ pl (name (h ! t)) @ s)"
  by (simp add: obtainName_def deref_def)

lemma generateEdge_Inr:
  "valid h b \<Longrightarrow> valid h t \<Longrightarrow>
   generateEdge pl h \<lparr>base = b, target = t\<rparr> =
     Inr (length h,
          h @ [\<lparr>name = (if b = t then [] else name (h ! b)) @ pl (name (h ! t)) @ ''Edge'',
                definition_of =
                  [(''node'', \<lparr>kind = T_INTERMEDIATE t, isList = False, isRequired = False\<rparr>),
                   (''cursor'', \<lparr>kind = T_STRING, isList = False, isRequired = True\<rparr>)]\<rparr>])"
  by (simp add: generateEdge_def obtainName_Inr attribute_def new_ObjectType_def
      object_literal_def no_options_def new_GraphqlType_def required_string_def
      required_option_def)

lemma generateConnection_Inr:
  "valid h ed \<Longrightarrow> valid h b \<Longrightarrow> valid h t \<Longrightarrow>
   generateConnection pl h ed \<lparr>base = b, target = t\<rparr> =
     Inr (length h,
          h @ [\<lparr>name = (if b = t then [] else name (h ! b)) @ pl (name (h ! t)) @ ''Connection'',
                definition_of =
                  object_literal
                    [(''pageInfo'',
                      \<lparr>kind = T_INTERMEDIATE PageInfo, isList = False, isRequired = True\<rparr>),
                     (''edges'', \<lparr>kind = T_INTERMEDIATE ed, isList = True, isRequired = False\<rparr>),
                     (''totalCount'', \<lparr>kind = T_INT, isList = False, isRequired = False\<rparr>),
                     (toLowerCase (pl (name (h ! t))),
                      \<lparr>kind = T_INTERMEDIATE t, isList = True, isRequired = False\<rparr>)]\<rparr>])"
  using valid_PageInfo[of h ed]
  by (simp add: generateConnection_def obtainName_Inr attribute_def deref_def new_ObjectType_def
      list_option_def new_GraphqlType_def required_option_def int_t_def no_options_def)

lemma valid_append: "valid h r \<Longrightarrow> valid (h @ xs) r"
  by (simp add: valid_def)

lemma valid_new: "valid (h @ [x]) (length h)"
  by (simp add: valid_def)

lemma generateConnectionAndEdge_Inr:
  "valid h b \<Longrightarrow> valid h t \<Longrightarrow>
   generateConnectionAndEdge pl h \<lparr>base = b, target = t\<rparr> =
     Inr (\<lparr>edge = length h, connection = Suc (length h)\<rparr>,
          h @ [\<lparr>name = (if b = t then [] else name (h ! b)) @ pl (name (h ! t)) @ ''Edge'',
                definition_of =
                  [(''node'', \<lparr>kind = T_INTERMEDIATE t, isList = False, isRequired = False\<rparr>),
                   (''cursor'', \<lparr>kind = T_STRING, isList = False, isRequired = True\<rparr>)]\<rparr>,
               \<lparr>name = (if b = t then [] else name (h ! b)) @ pl (name (h ! t)) @ ''Connection'',
                definition_of =
                  object_literal
                    [(''pageInfo'',
                      \<lparr>kind = T_INTERMEDIATE PageInfo, isList = False, isRequired = True\<rparr>),
                     (''edges'',
                      \<lparr>kind = T_INTERMEDIATE (length h), isList = True, isRequired = False\<rparr>),
                     (''totalCount'', \<lparr>kind = T_INT, isList = False, isRequired = False\<rparr>),
                     (toLowerCase (pl (name (h ! t))),
                      \<lparr>kind = T_INTERMEDIATE t, isList = True, isRequired = False\<rparr>)]\<rparr>])"
proof -
  assume b: "valid h b" and t: "valid h t"
  let ?E = "\<lparr>name = (if b = t then [] else name (h ! b)) @ pl (name (h ! t)) @ ''Edge'',
              definition_of =
                [(''node'', \<lparr>kind = T_INTERMEDIATE t, isList = False, isRequired = False\<rparr>),
                 (''cursor'', \<lparr>kind = T_STRING, isList = False, isRequired = True\<rparr>)]\<rparr>"
  have lt: "b < length h" "t < length h"
    using b t by (simp_all add: valid_def)
  have e: "generateEdge pl h \<lparr>base = b, target = t\<rparr> = Inr (length h, h @ [?E])"
    by (rule generateEdge_Inr[OF b t])
  have c: "generateConnection pl (h @ [?E]) (length h) \<lparr>base = b, target = t\<rparr> = Inr
     (length (h @ [?E]),
      (h @ [?E]) @
        [\<lparr>name = (if b = t then [] else name ((h @ [?E]) ! b)) @ pl (name ((h @ [?E]) ! t)) @
                   ''Connection'',
          definition_of =
            object_literal
              [(''pageInfo'',
                \<lparr>kind = T_INTERMEDIATE PageInfo, isList = False, isRequired = True\<rparr>),
               (''edges'',
                \<lparr>kind = T_INTERMEDIATE (length h), isList = True, isRequired = False\<rparr>),
               (''totalCount'', \<lparr>kind = T_INT, isList = False, isRequired = False\<rparr>),
               (toLowerCase (pl (name ((h @ [?E]) ! t))),
                \<lparr>kind = T_INTERMEDIATE t, isList = True, isRequired = False\<rparr>)]\<rparr>])"
    by (rule generateConnection_Inr[OF valid_new valid_append[OF b] valid_append[OF t]])
  show ?thesis
    using lt by (simp add: generateConnectionAndEdge_def e c nth_append)
qed

lemma generateEdge_Inl:
  "\<not> (valid h b \<and> valid h t) \<Longrightarrow> \<exists>err. generateEdge pl h \<lparr>base = b, target = t\<rparr> = Inl err"
  by (auto simp: generateEdge_def obtainName_def deref_def attribute_def)

lemma toLowerCase_no_upper:
  "c \<in> set (toLowerCase s) \<Longrightarrow> \<not> (65 \<le> (of_char c :: nat) \<and> (of_char c :: nat) \<le> 90)"
  by (auto simp: toLowerCase_def toLowerCase_char_def Let_def split: if_splits)

lemma toLowerCase_not_pageInfo: "toLowerCase s \<noteq> ''pageInfo''"
proof
  assume "toLowerCase s = ''pageInfo''"
  then have "CHR ''I'' \<in> set (toLowerCase s)" by simp
  from toLowerCase_no_upper[OF this] show False by simp
qed

lemma toLowerCase_not_totalCount: "toLowerCase s \<noteq> ''totalCount''"
proof
  assume "toLowerCase s = ''totalCount''"
  then have "CHR ''C'' \<in> set (toLowerCase s)" by simp
  from toLowerCase_no_upper[OF this] show False by simp
qed

lemma object_literal_connection:
  "object_literal [(''pageInfo'', p), (''edges'', e), (''totalCount'', c), (k, v)] =
     (if k = ''pageInfo'' then [(''pageInfo'', v), (''edges'', e), (''totalCount'', c)]
      else if k = ''edges'' then [(''pageInfo'', p), (''edges'', v), (''totalCount'', c)]
      else if k = ''totalCount'' then [(''pageInfo'', p), (''edges'', e), (''totalCount'', v)]
      else [(''pageInfo'', p), (''edges'', e), (''totalCount'', c), (k, v)])"
  by (simp add: object_literal_def)

lemma generateConnectionAndEdge_Inl:
  "\<not> (valid h b \<and> valid h t) \<Longrightarrow>
   \<exists>err. generateConnectionAndEdge pl h \<lparr>base = b, target = t\<rparr> = Inl err"
  using generateEdge_Inl[of h b t pl] by (auto simp: generateConnectionAndEdge_def)

lemma equal_by_value_name:
  "equal_by_value g r r' \<Longrightarrow> valid g r \<and> valid g r' \<and> name (g ! r) = name (g ! r')"
  by (auto simp: equal_by_value_def shape_def deref_def split: if_splits)

lemma shape_edge:
  assumes "e < length g" and "t < length g"
    and "g ! e = \<lparr>name = n, definition_of =
            [(''node'', \<lparr>kind = T_INTERMEDIATE t, isList = False, isRequired = False\<rparr>),
             (''cursor'', \<lparr>kind = T_STRING, isList = False, isRequired = True\<rparr>)]\<rparr>"
  shows "shape g e =
           Some (n, [(''node'', Inr (name (g ! t)), False, False),
                     (''cursor'', Inl T_STRING, False, True)])"
  using assms by (simp add: shape_def deref_def valid_def field_shape_def type_shape_def)

lemma shape_connection:
  assumes "c < length g" and "ed < length g" and "t < length g"
    and "g ! c = \<lparr>name = n, definition_of =
            object_literal
              [(''pageInfo'', \<lparr>kind = T_INTERMEDIATE PageInfo, isList = False, isRequired = True\<rparr>),
               (''edges'', \<lparr>kind = T_INTERMEDIATE ed, isList = True, isRequired = False\<rparr>),
               (''totalCount'', \<lparr>kind = T_INT, isList = False, isRequired = False\<rparr>),
               (k, \<lparr>kind = T_INTERMEDIATE t, isList = True, isRequired = False\<rparr>)]\<rparr>"
  shows "shape g c =
           Some (n, object_literal
                      [(''pageInfo'', Inr (name (g ! 0)), False, True),
                       (''edges'', Inr (name (g ! ed)), True, False),
                       (''totalCount'', Inl T_INT, False, False),
                       (k, Inr (name (g ! t)), True, False)])"
proof -
  have pos: "0 < length g"
    using assms(1) by (cases g) simp_all
  have "shape g c = Some (name (g ! c), map (field_shape g) (definition_of (g ! c)))"
    using assms(1) by (simp add: shape_def deref_def valid_def)
  also have "\<dots> = Some (n, object_literal
                      [(''pageInfo'', Inr (name (g ! 0)), False, True),
                       (''edges'', Inr (name (g ! ed)), True, False),
                       (''totalCount'', Inl T_INT, False, False),
                       (k, Inr (name (g ! t)), True, False)])"
    unfolding assms(4) object_literal_connection
    using assms(1-3) pos
    by (simp add: deref_def valid_def field_shape_def type_shape_def PageInfo_address)
  finally show ?thesis .
qed

lemma example_heap_valid:
  "valid example_heap 1" "valid example_heap 2" "valid example_heap 3"
  "valid example_heap 4" "valid example_heap 5" "valid example_heap 6"
  by (simp_all add: valid_def example_heap_def module_heap_def module_init_def
      new_ObjectType_def)

subsection \<open>The naming function\<close>

text \<open>
  C1. For descriptors \<open>b\<close> and \<open>t\<close> of the store and every suffix \<open>s\<close>, the naming function
  returns \<open>pluralize (name t) + s\<close> when \<open>b\<close> and \<open>t\<close> are the identical descriptor, and
  \<open>name b + pluralize (name t) + s\<close> when they are distinct descriptors.
\<close>

theorem obtainName_identity_or_prefix:
  assumes "valid h b" and "valid h t"
  shows "obtainName pl h s \<lparr>base = b, target = t\<rparr> =
           Inr (if b = t then pl (name (h ! t)) @ s
                else name (h ! b) @ pl (name (h ! t)) @ s)"
  using assms by (simp add: obtainName_def deref_def)

theorem obtainName_identity_or_prefix_witness:
  "valid example_heap 1 \<and> valid example_heap 2 \<and>
   obtainName pluralize_s example_heap ''Edge'' \<lparr>base = 1, target = 2\<rparr> =
     Inr ''StudentCoursesEdge''"
proof -
  have v1: "valid example_heap 1" and v2: "valid example_heap 2"
    by (rule example_heap_valid)+
  have "obtainName pluralize_s example_heap ''Edge'' \<lparr>base = 1, target = 2\<rparr> =
          Inr (if (1::nat) = 2 then pluralize_s (name (example_heap ! 2)) @ ''Edge''
               else name (example_heap ! 1) @ pluralize_s (name (example_heap ! 2)) @ ''Edge'')"
    by (rule obtainName_identity_or_prefix[OF v1 v2])
  also have "\<dots> = Inr ''StudentCoursesEdge''"
    by code_simp
  finally show ?thesis
    using v1 v2 by simp
qed

subsection \<open>The Edge generator\<close>

text \<open>
  C3. For descriptors \<open>b\<close> and \<open>t\<close> of the store, \<open>generateEdge\<close> constructs one new
  descriptor, whose name is the result of the naming function with suffix \<open>Edge\<close> and
  which has exactly two fields: \<open>node\<close>, a reference to \<open>t\<close> that is neither required nor a
  list, and \<open>cursor\<close>, a required string.
\<close>

theorem generateEdge_node_cursor:
  assumes "valid h b" and "valid h t"
  shows "\<exists>n. obtainName pl h ''Edge'' \<lparr>base = b, target = t\<rparr> = Inr n \<and>
             generateEdge pl h \<lparr>base = b, target = t\<rparr> =
               Inr (length h,
                    h @ [\<lparr>name = n,
                          definition_of =
                            [(''node'',
                              \<lparr>kind = T_INTERMEDIATE t, isList = False, isRequired = False\<rparr>),
                             (''cursor'',
                              \<lparr>kind = T_STRING, isList = False, isRequired = True\<rparr>)]\<rparr>])"
  by (simp add: obtainName_Inr[OF assms] generateEdge_Inr[OF assms])

theorem generateEdge_node_cursor_witness:
  "valid example_heap 3 \<and>
   (\<exists>n. obtainName pluralize_s example_heap ''Edge'' \<lparr>base = 3, target = 3\<rparr> = Inr n \<and>
        generateEdge pluralize_s example_heap \<lparr>base = 3, target = 3\<rparr> =
          Inr (length example_heap,
               example_heap @
                 [\<lparr>name = n,
                   definition_of =
                     [(''node'',
                       \<lparr>kind = T_INTERMEDIATE 3, isList = False, isRequired = False\<rparr>),
                      (''cursor'',
                       \<lparr>kind = T_STRING, isList = False, isRequired = True\<rparr>)]\<rparr>]))"
proof -
  have v: "valid example_heap 3"
    by (rule example_heap_valid)
  show ?thesis
    using v generateEdge_node_cursor[OF v v, of pluralize_s] by simp
qed

subsection \<open>The combined generator\<close>

text \<open>
  C4. For descriptors \<open>b\<close> and \<open>t\<close> of the store, the combined generator returns the pair
  of the Edge returned by \<open>generateEdge\<close> and of the Connection returned by
  \<open>generateConnection\<close> for that same Edge, called in the store that \<open>generateEdge\<close> left.
\<close>

theorem generateConnectionAndEdge_composition:
  assumes "valid h b" and "valid h t"
  shows "\<exists>e h1 c h2.
           generateEdge pl h \<lparr>base = b, target = t\<rparr> = Inr (e, h1) \<and>
           generateConnection pl h1 e \<lparr>base = b, target = t\<rparr> = Inr (c, h2) \<and>
           generateConnectionAndEdge pl h \<lparr>base = b, target = t\<rparr> =
             Inr (\<lparr>edge = e, connection = c\<rparr>, h2)"
proof -
  obtain e h1 where e: "generateEdge pl h \<lparr>base = b, target = t\<rparr> = Inr (e, h1)"
    and e_def: "e = length h" and h1: "h1 = h @ [h1 ! e]"
    using generateEdge_Inr[OF assms, of pl] by simp
  have "valid h1 e"
    using e_def h1 valid_new[of h "h1 ! e"] by simp
  moreover have "valid h1 b" "valid h1 t"
    using assms h1 valid_append[of h _ "[h1 ! e]"] by simp_all
  ultimately obtain c h2 where
    c: "generateConnection pl h1 e \<lparr>base = b, target = t\<rparr> = Inr (c, h2)"
    using generateConnection_Inr[of h1 e b t pl] by simp
  have "generateConnectionAndEdge pl h \<lparr>base = b, target = t\<rparr> =
          Inr (\<lparr>edge = e, connection = c\<rparr>, h2)"
    by (simp add: generateConnectionAndEdge_def e c)
  with e c show ?thesis by blast
qed

theorem generateConnectionAndEdge_composition_witness:
  "valid example_heap 1 \<and> valid example_heap 2 \<and>
   (\<exists>e h1 c h2.
      generateEdge pluralize_s example_heap \<lparr>base = 1, target = 2\<rparr> = Inr (e, h1) \<and>
      generateConnection pluralize_s h1 e \<lparr>base = 1, target = 2\<rparr> = Inr (c, h2) \<and>
      generateConnectionAndEdge pluralize_s example_heap \<lparr>base = 1, target = 2\<rparr> =
        Inr (\<lparr>edge = e, connection = c\<rparr>, h2))"
proof -
  have v1: "valid example_heap 1" and v2: "valid example_heap 2"
    by (rule example_heap_valid)+
  show ?thesis
    using v1 v2 generateConnectionAndEdge_composition[OF v1 v2, of pluralize_s] by simp
qed

subsection \<open>The Connection generator\<close>

text \<open>
  C2, as stated, fails: for a target named \<open>Edge\<close> the computed key of the fourth field is
  \<open>edges\<close>, the key of the second field, and the Connection has three fields.
\<close>

theorem generateConnection_four_fields_counterexample:
  "map_option definition_of
     (result_object (generateConnection pluralize_s example_heap 6 \<lparr>base = 1, target = 5\<rparr>)) =
     Some [(''pageInfo'', \<lparr>kind = T_INTERMEDIATE 0, isList = False, isRequired = True\<rparr>),
           (''edges'', \<lparr>kind = T_INTERMEDIATE 5, isList = True, isRequired = False\<rparr>),
           (''totalCount'', \<lparr>kind = T_INT, isList = False, isRequired = False\<rparr>)] \<and>
   map_option (length \<circ> definition_of)
     (result_object (generateConnection pluralize_s example_heap 6 \<lparr>base = 1, target = 5\<rparr>)) \<noteq>
     Some 4"
  by code_simp

text \<open>
  C2, amended. For an Edge descriptor \<open>ed\<close> and descriptors \<open>b\<close> and \<open>t\<close> of the store such
  that the lower-cased plural of the name of \<open>t\<close> is not \<open>edges\<close>, the Connection descriptor
  that \<open>generateConnection\<close> constructs has exactly four fields, with four different names:
  \<open>pageInfo\<close>, a required reference to the shared \<open>PageInfo\<close>; \<open>edges\<close>, a list of \<open>ed\<close>;
  \<open>totalCount\<close>, an optional int; and the field named by the lower-cased plural of the
  name of \<open>t\<close>, a list of direct references to \<open>t\<close>.
\<close>

theorem generateConnection_four_fields:
  assumes "valid h ed" and "valid h b" and "valid h t"
    and "toLowerCase (pl (name (h ! t))) \<noteq> ''edges''"
  shows "\<exists>n d. generateConnection pl h ed \<lparr>base = b, target = t\<rparr> =
                 Inr (length h, h @ [\<lparr>name = n, definition_of = d\<rparr>]) \<and>
               length d = 4 \<and> distinct (map fst d) \<and>
               map_of d ''pageInfo'' =
                 Some \<lparr>kind = T_INTERMEDIATE PageInfo, isList = False, isRequired = True\<rparr> \<and>
               map_of d ''edges'' =
                 Some \<lparr>kind = T_INTERMEDIATE ed, isList = True, isRequired = False\<rparr> \<and>
               map_of d ''totalCount'' =
                 Some \<lparr>kind = T_INT, isList = False, isRequired = False\<rparr> \<and>
               map_of d (toLowerCase (pl (name (h ! t)))) =
                 Some \<lparr>kind = T_INTERMEDIATE t, isList = True, isRequired = False\<rparr>"
  using assms(4) toLowerCase_not_pageInfo[of "pl (name (h ! t))"]
    toLowerCase_not_totalCount[of "pl (name (h ! t))"]
  by (simp add: generateConnection_Inr[OF assms(1-3)] object_literal_connection)

theorem generateConnection_four_fields_witness:
  "valid example_heap 3 \<and> valid example_heap 1 \<and> valid example_heap 2 \<and>
   toLowerCase (pluralize_s (name (example_heap ! 2))) \<noteq> ''edges'' \<and>
   (\<exists>n d. generateConnection pluralize_s example_heap 3 \<lparr>base = 1, target = 2\<rparr> =
            Inr (length example_heap, example_heap @ [\<lparr>name = n, definition_of = d\<rparr>]) \<and>
          length d = 4 \<and> distinct (map fst d) \<and>
          map_of d ''pageInfo'' =
            Some \<lparr>kind = T_INTERMEDIATE PageInfo, isList = False, isRequired = True\<rparr> \<and>
          map_of d ''edges'' =
            Some \<lparr>kind = T_INTERMEDIATE 3, isList = True, isRequired = False\<rparr> \<and>
          map_of d ''totalCount'' =
            Some \<lparr>kind = T_INT, isList = False, isRequired = False\<rparr> \<and>
          map_of d (toLowerCase (pluralize_s (name (example_heap ! 2)))) =
            Some \<lparr>kind = T_INTERMEDIATE 2, isList = True, isRequired = False\<rparr>)"
proof -
  have v: "valid example_heap 3" "valid example_heap 1" "valid example_heap 2"
    by (rule example_heap_valid)+
  have k: "toLowerCase (pluralize_s (name (example_heap ! 2))) \<noteq> ''edges''"
    by code_simp
  show ?thesis
    using v k generateConnection_four_fields[where pl = pluralize_s, OF v k] by blast
qed

text \<open>
  C5. When the lower-cased plural of the name of the target \<open>t\<close> is one of the fixed field
  names of a Connection (it can only be \<open>edges\<close>), the computed key collides with that
  field: the Connection descriptor has fewer than four fields, and its \<open>edges\<close> field is a
  list of direct references to \<open>t\<close>, not the list of the Edge descriptor \<open>ed\<close>.
\<close>

theorem generateConnection_key_collision:
  assumes "valid h ed" and "valid h b" and "valid h t"
    and "toLowerCase (pl (name (h ! t))) \<in> {''pageInfo'', ''edges'', ''totalCount''}"
  shows "\<exists>n d. generateConnection pl h ed \<lparr>base = b, target = t\<rparr> =
                 Inr (length h, h @ [\<lparr>name = n, definition_of = d\<rparr>]) \<and>
               length d < 4 \<and>
               map_of d ''edges'' =
                 Some \<lparr>kind = T_INTERMEDIATE t, isList = True, isRequired = False\<rparr> \<and>
               (ed \<noteq> t \<longrightarrow>
                  map_of d ''edges'' \<noteq>
                    Some \<lparr>kind = T_INTERMEDIATE ed, isList = True, isRequired = False\<rparr>)"
proof -
  have "toLowerCase (pl (name (h ! t))) = ''edges''"
    using assms(4) toLowerCase_not_pageInfo[of "pl (name (h ! t))"]
      toLowerCase_not_totalCount[of "pl (name (h ! t))"]
    by blast
  then show ?thesis
    by (simp add: generateConnection_Inr[OF assms(1-3)] object_literal_connection)
qed

theorem generateConnection_key_collision_witness:
  "valid example_heap 6 \<and> valid example_heap 1 \<and> valid example_heap 5 \<and>
   toLowerCase (pluralize_s (name (example_heap ! 5))) \<in>
     {''pageInfo'', ''edges'', ''totalCount''} \<and>
   (\<exists>n d. generateConnection pluralize_s example_heap 6 \<lparr>base = 1, target = 5\<rparr> =
            Inr (length example_heap, example_heap @ [\<lparr>name = n, definition_of = d\<rparr>]) \<and>
          length d < 4 \<and>
          map_of d ''edges'' =
            Some \<lparr>kind = T_INTERMEDIATE 5, isList = True, isRequired = False\<rparr> \<and>
          ((6::nat) \<noteq> 5 \<longrightarrow>
             map_of d ''edges'' \<noteq>
               Some \<lparr>kind = T_INTERMEDIATE 6, isList = True, isRequired = False\<rparr>))"
proof -
  have v: "valid example_heap 6" "valid example_heap 1" "valid example_heap 5"
    by (rule example_heap_valid)+
  have k: "toLowerCase (pluralize_s (name (example_heap ! 5))) \<in>
             {''pageInfo'', ''edges'', ''totalCount''}"
    by code_simp
  show ?thesis
    using v k generateConnection_key_collision[where pl = pluralize_s, OF v k] by blast
qed

subsection \<open>The example of a Student and its Courses\<close>

text \<open>
  C6. For distinct descriptors \<open>b\<close>, named \<open>Student\<close>, and \<open>t\<close>, named \<open>Course\<close> (whose plural
  is \<open>Courses\<close>), the combined generator returns an edge named \<open>StudentCoursesEdge\<close> with the
  fields \<open>node\<close> (a reference to \<open>t\<close>) and \<open>cursor\<close> (a required string), and a connection
  named \<open>StudentCoursesConnection\<close> with the fields \<open>pageInfo\<close> (a required reference to
  \<open>PageInfo\<close>), \<open>edges\<close> (a list of that edge), \<open>totalCount\<close> (an int) and \<open>courses\<close> (a
  list of \<open>t\<close>).
\<close>

theorem generateConnectionAndEdge_Student_Course:
  assumes "valid h b" and "valid h t" and "b \<noteq> t"
    and "name (h ! b) = ''Student''" and "name (h ! t) = ''Course''"
    and "pl ''Course'' = ''Courses''"
  shows "generateConnectionAndEdge pl h \<lparr>base = b, target = t\<rparr> =
           Inr (\<lparr>edge = length h, connection = Suc (length h)\<rparr>,
                h @ [\<lparr>name = ''StudentCoursesEdge'',
                      definition_of =
                        [(''node'',
                          \<lparr>kind = T_INTERMEDIATE t, isList = False, isRequired = False\<rparr>),
                         (''cursor'',
                          \<lparr>kind = T_STRING, isList = False, isRequired = True\<rparr>)]\<rparr>,
                     \<lparr>name = ''StudentCoursesConnection'',
                      definition_of =
                        [(''pageInfo'',
                          \<lparr>kind = T_INTERMEDIATE PageInfo, isList = False,
                             isRequired = True\<rparr>),
                         (''edges'',
                          \<lparr>kind = T_INTERMEDIATE (length h), isList = True,
                             isRequired = False\<rparr>),
                         (''totalCount'',
                          \<lparr>kind = T_INT, isList = False, isRequired = False\<rparr>),
                         (''courses'',
                          \<lparr>kind = T_INTERMEDIATE t, isList = True,
                             isRequired = False\<rparr>)]\<rparr>])"
proof -
  have "toLowerCase ''Courses'' = ''courses''"
    by code_simp
  then show ?thesis
    using assms(3-6)
    by (simp add: generateConnectionAndEdge_Inr[OF assms(1,2)] object_literal_connection)
qed

theorem generateConnectionAndEdge_Student_Course_witness:
  "valid example_heap 1 \<and> valid example_heap 2 \<and> (1::nat) \<noteq> 2 \<and>
   name (example_heap ! 1) = ''Student'' \<and> name (example_heap ! 2) = ''Course'' \<and>
   pluralize_s ''Course'' = ''Courses'' \<and>
   generateConnectionAndEdge pluralize_s example_heap \<lparr>base = 1, target = 2\<rparr> =
     Inr (\<lparr>edge = length example_heap, connection = Suc (length example_heap)\<rparr>,
          example_heap @
            [\<lparr>name = ''StudentCoursesEdge'',
              definition_of =
                [(''node'', \<lparr>kind = T_INTERMEDIATE 2, isList = False, isRequired = False\<rparr>),
                 (''cursor'', \<lparr>kind = T_STRING, isList = False, isRequired = True\<rparr>)]\<rparr>,
             \<lparr>name = ''StudentCoursesConnection'',
              definition_of =
                [(''pageInfo'',
                  \<lparr>kind = T_INTERMEDIATE PageInfo, isList = False, isRequired = True\<rparr>),
                 (''edges'',
                  \<lparr>kind = T_INTERMEDIATE (length example_heap), isList = True,
                     isRequired = False\<rparr>),
                 (''totalCount'', \<lparr>kind = T_INT, isList = False, isRequired = False\<rparr>),
                 (''courses'',
                  \<lparr>kind = T_INTERMEDIATE 2, isList = True, isRequired = False\<rparr>)]\<rparr>])"
proof -
  have v: "valid example_heap 1" "valid example_heap 2"
    by (rule example_heap_valid)+
  have d: "(1::nat) \<noteq> 2"
    by simp
  have n: "name (example_heap ! 1) = ''Student''" "name (example_heap ! 2) = ''Course''"
    by code_simp+
  have p: "pluralize_s ''Course'' = ''Courses''"
    by code_simp
  show ?thesis
    using v d n p generateConnectionAndEdge_Student_Course[where pl = pluralize_s, OF v d n p]
    by blast
qed

subsection \<open>The shared PageInfo\<close>

text \<open>
  C8. Loading the module constructs one descriptor, \<open>PageInfo\<close>, with exactly the fields
  \<open>hasNextPage\<close> and \<open>hasPreviousPage\<close>, required booleans, and \<open>startCursor\<close> and
  \<open>endCursor\<close>, optional strings. In a store where the module is loaded, every Connection
  that \<open>generateConnection\<close> constructs is another descriptor than \<open>PageInfo\<close>, holds in
  its field \<open>pageInfo\<close> a required reference to \<open>PageInfo\<close>, and leaves \<open>PageInfo\<close> in the
  store as it was.
\<close>

theorem PageInfo_shared_by_connections:
  assumes "loaded h" and "valid h ed" and "valid h b" and "valid h t"
  shows "module_init =
           (PageInfo,
            [\<lparr>name = ''PageInfo'',
              definition_of =
                [(''hasNextPage'', \<lparr>kind = T_BOOLEAN, isList = False, isRequired = True\<rparr>),
                 (''hasPreviousPage'',
                  \<lparr>kind = T_BOOLEAN, isList = False, isRequired = True\<rparr>),
                 (''startCursor'', \<lparr>kind = T_STRING, isList = False, isRequired = False\<rparr>),
                 (''endCursor'',
                  \<lparr>kind = T_STRING, isList = False, isRequired = False\<rparr>)]\<rparr>]) \<and>
         (\<exists>c h'. generateConnection pl h ed \<lparr>base = b, target = t\<rparr> = Inr (c, h') \<and>
                  c \<noteq> PageInfo \<and>
                  map_of (definition_of (h' ! c)) ''pageInfo'' =
                    Some \<lparr>kind = T_INTERMEDIATE PageInfo, isList = False,
                          isRequired = True\<rparr> \<and>
                  loaded h' \<and>
                  deref h' PageInfo = deref module_heap PageInfo)"
proof -
  have init: "module_init =
           (PageInfo,
            [\<lparr>name = ''PageInfo'',
              definition_of =
                [(''hasNextPage'', \<lparr>kind = T_BOOLEAN, isList = False, isRequired = True\<rparr>),
                 (''hasPreviousPage'',
                  \<lparr>kind = T_BOOLEAN, isList = False, isRequired = True\<rparr>),
                 (''startCursor'', \<lparr>kind = T_STRING, isList = False, isRequired = False\<rparr>),
                 (''endCursor'',
                  \<lparr>kind = T_STRING, isList = False, isRequired = False\<rparr>)]\<rparr>])"
    by (simp add: PageInfo_address)
      (simp add: module_init_def new_ObjectType_def object_literal_def required_boolean_def
        string_t_def new_GraphqlType_def required_option_def no_options_def)
  have len: "length module_heap = 1"
    by (simp add: module_heap_def init)
  have pos: "0 < length h"
    using assms(2) by (cases h) (simp_all add: valid_def)
  have hd_h: "h ! 0 = module_heap ! 0"
    using assms(1) pos nth_take[of 0 "length module_heap" h]
    by (simp add: loaded_def len)
  define d where "d =
      \<lparr>name = (if b = t then [] else name (h ! b)) @ pl (name (h ! t)) @ ''Connection'',
       definition_of =
         object_literal
           [(''pageInfo'',
             \<lparr>kind = T_INTERMEDIATE PageInfo, isList = False, isRequired = True\<rparr>),
            (''edges'', \<lparr>kind = T_INTERMEDIATE ed, isList = True, isRequired = False\<rparr>),
            (''totalCount'', \<lparr>kind = T_INT, isList = False, isRequired = False\<rparr>),
            (toLowerCase (pl (name (h ! t))),
             \<lparr>kind = T_INTERMEDIATE t, isList = True, isRequired = False\<rparr>)]\<rparr>"
  have gen: "generateConnection pl h ed \<lparr>base = b, target = t\<rparr> = Inr (length h, h @ [d])"
    unfolding d_def by (rule generateConnection_Inr[OF assms(2-4)])
  have field: "map_of (definition_of ((h @ [d]) ! length h)) ''pageInfo'' =
      Some \<lparr>kind = T_INTERMEDIATE PageInfo, isList = False, isRequired = True\<rparr>"
    using toLowerCase_not_pageInfo[of "pl (name (h ! t))"]
    by (simp add: d_def object_literal_connection)
  have other: "length h \<noteq> PageInfo"
    using pos by (simp add: PageInfo_address)
  have still: "loaded (h @ [d])"
    using assms(1) pos by (cases h) (simp_all add: loaded_def len)
  have same: "deref (h @ [d]) PageInfo = deref module_heap PageInfo"
    using pos hd_h by (simp add: deref_def valid_def PageInfo_address len nth_append)
  show ?thesis
    using init gen field other still same by blast
qed

theorem PageInfo_shared_by_connections_witness:
  "loaded example_heap \<and> valid example_heap 6 \<and> valid example_heap 1 \<and>
   valid example_heap 5 \<and>
   (\<exists>c h'. generateConnection pluralize_s example_heap 6 \<lparr>base = 1, target = 5\<rparr> =
             Inr (c, h') \<and>
           c \<noteq> PageInfo \<and>
           map_of (definition_of (h' ! c)) ''pageInfo'' =
             Some \<lparr>kind = T_INTERMEDIATE PageInfo, isList = False, isRequired = True\<rparr> \<and>
           loaded h' \<and>
           deref h' PageInfo = deref module_heap PageInfo)"
proof -
  have l: "loaded example_heap"
    by (simp add: loaded_def example_heap_def)
  have v: "valid example_heap 6" "valid example_heap 1" "valid example_heap 5"
    by (rule example_heap_valid)+
  show ?thesis
    using l v PageInfo_shared_by_connections[where pl = pluralize_s, OF l v] by blast
qed

subsection \<open>Calling the combined generator twice\<close>

text \<open>
  C7, as stated, fails: the two object types named \<open>Review\<close> at addresses 3 and 4 are
  equal by value, so the pairs (3, 3) and (3, 4) are equal by value; but the first is a
  self-relation, named without a prefix (\<open>ReviewsEdge\<close>), and the second is not
  (\<open>ReviewReviewsEdge\<close>).
\<close>

theorem generate_twice_same_shapes_counterexample:
  "pairs_equal_by_value
     (generate_twice pluralize_s example_heap \<lparr>base = 3, target = 3\<rparr> []
        \<lparr>base = 3, target = 4\<rparr>)
     \<lparr>base = 3, target = 3\<rparr> \<lparr>base = 3, target = 4\<rparr> \<and>
   \<not> same_shapes
     (generate_twice pluralize_s example_heap \<lparr>base = 3, target = 3\<rparr> []
        \<lparr>base = 3, target = 4\<rparr>)"
  by code_simp

text \<open>
  C7, amended. For two calls of the combined generator with pairs \<open>(b, t)\<close> and \<open>(b', t')\<close>
  that are equal by value and in which base and target are the identical descriptor either
  in both pairs or in neither, the two returned Edge descriptors have the same name and
  the same field shapes, and so have the two returned Connection descriptors; the four
  returned descriptors are distinct instances.
\<close>

theorem generate_twice_same_shapes:
  assumes eq: "pairs_equal_by_value
             (generate_twice pl h \<lparr>base = b, target = t\<rparr> between \<lparr>base = b', target = t'\<rparr>)
             \<lparr>base = b, target = t\<rparr> \<lparr>base = b', target = t'\<rparr>"
    and aliasing: "(b = t) = (b' = t')"
  shows "same_shapes
           (generate_twice pl h \<lparr>base = b, target = t\<rparr> between \<lparr>base = b', target = t'\<rparr>) \<and>
         distinct_instances
           (generate_twice pl h \<lparr>base = b, target = t\<rparr> between \<lparr>base = b', target = t'\<rparr>)"
proof -
  define n1 where "n1 = (if b = t then [] else name (h ! b)) @ pl (name (h ! t))"
  define k1 where "k1 = toLowerCase (pl (name (h ! t)))"
  define E1 where "E1 =
    \<lparr>name = n1 @ ''Edge'',
     definition_of =
       [(''node'', \<lparr>kind = T_INTERMEDIATE t, isList = False, isRequired = False\<rparr>),
        (''cursor'', \<lparr>kind = T_STRING, isList = False, isRequired = True\<rparr>)]\<rparr>"
  define C1 where "C1 =
    \<lparr>name = n1 @ ''Connection'',
     definition_of =
       object_literal
         [(''pageInfo'', \<lparr>kind = T_INTERMEDIATE PageInfo, isList = False, isRequired = True\<rparr>),
          (''edges'', \<lparr>kind = T_INTERMEDIATE (length h), isList = True, isRequired = False\<rparr>),
          (''totalCount'', \<lparr>kind = T_INT, isList = False, isRequired = False\<rparr>),
          (k1, \<lparr>kind = T_INTERMEDIATE t, isList = True, isRequired = False\<rparr>)]\<rparr>"
  define H where "H = (h @ [E1, C1]) @ between"
  define n2 where "n2 = (if b' = t' then [] else name (H ! b')) @ pl (name (H ! t'))"
  define k2 where "k2 = toLowerCase (pl (name (H ! t')))"
  define E2 where "E2 =
    \<lparr>name = n2 @ ''Edge'',
     definition_of =
       [(''node'', \<lparr>kind = T_INTERMEDIATE t', isList = False, isRequired = False\<rparr>),
        (''cursor'', \<lparr>kind = T_STRING, isList = False, isRequired = True\<rparr>)]\<rparr>"
  define C2 where "C2 =
    \<lparr>name = n2 @ ''Connection'',
     definition_of =
       object_literal
         [(''pageInfo'', \<lparr>kind = T_INTERMEDIATE PageInfo, isList = False, isRequired = True\<rparr>),
          (''edges'', \<lparr>kind = T_INTERMEDIATE (length H), isList = True, isRequired = False\<rparr>),
          (''totalCount'', \<lparr>kind = T_INT, isList = False, isRequired = False\<rparr>),
          (k2, \<lparr>kind = T_INTERMEDIATE t', isList = True, isRequired = False\<rparr>)]\<rparr>"
  define g where "g = H @ [E2, C2]"
  have v1: "valid h b \<and> valid h t"
  proof (rule ccontr)
    assume "\<not> (valid h b \<and> valid h t)"
    from generateConnectionAndEdge_Inl[OF this, of pl] eq show False
      by (auto simp: generate_twice_def pairs_equal_by_value_def)
  qed
  have first: "generateConnectionAndEdge pl h \<lparr>base = b, target = t\<rparr> =
      Inr (\<lparr>edge = length h, connection = Suc (length h)\<rparr>, h @ [E1, C1])"
    using v1 unfolding E1_def C1_def n1_def k1_def
    by (simp add: generateConnectionAndEdge_Inr)
  have v2: "valid H b' \<and> valid H t'"
  proof (rule ccontr)
    assume "\<not> (valid H b' \<and> valid H t')"
    from generateConnectionAndEdge_Inl[OF this, of pl] eq show False
      by (auto simp: generate_twice_def pairs_equal_by_value_def first H_def)
  qed
  have second: "generateConnectionAndEdge pl H \<lparr>base = b', target = t'\<rparr> =
      Inr (\<lparr>edge = length H, connection = Suc (length H)\<rparr>, g)"
    using v2 unfolding g_def E2_def C2_def n2_def k2_def
    by (simp add: generateConnectionAndEdge_Inr)
  have twice: "generate_twice pl h \<lparr>base = b, target = t\<rparr> between \<lparr>base = b', target = t'\<rparr> =
      Inr ((\<lparr>edge = length h, connection = Suc (length h)\<rparr>,
            \<lparr>edge = length H, connection = Suc (length H)\<rparr>), g)"
  proof -
    have "generate_twice pl h \<lparr>base = b, target = t\<rparr> between \<lparr>base = b', target = t'\<rparr> =
        (case generateConnectionAndEdge pl H \<lparr>base = b', target = t'\<rparr> of
           Inl err \<Rightarrow> Inl err
         | Inr (r2, h2) \<Rightarrow>
             Inr ((\<lparr>edge = length h, connection = Suc (length h)\<rparr>, r2), h2))"
      unfolding generate_twice_def first H_def by simp
    then show ?thesis
      by (simp add: second)
  qed
  have later: "Suc (length h) < length H"
    by (simp add: H_def)
  have bounds: "length h < length g" "Suc (length h) < length g" "length H < length g"
    "Suc (length H) < length g"
    using later by (simp_all add: g_def)
  have lt: "b < length h" "t < length h" "b' < length H" "t' < length H"
    using v1 v2 by (simp_all add: valid_def)
  have lt_g: "t < length g" "t' < length g"
    using lt later by (simp_all add: g_def)
  have at_h: "g ! b = h ! b" "g ! t = h ! t" "g ! length h = E1" "g ! Suc (length h) = C1"
    using lt by (simp_all add: g_def H_def nth_append)
  have at_H: "g ! b' = H ! b'" "g ! t' = H ! t'" "g ! length H = E2" "g ! Suc (length H) = C2"
    using lt by (simp_all add: g_def nth_append)
  note at = at_h at_H
  have names: "name (h ! b) = name (H ! b')" "name (h ! t) = name (H ! t')"
    using eq equal_by_value_name[of g b b'] equal_by_value_name[of g t t']
    by (simp_all add: twice pairs_equal_by_value_def at)
  have n: "n1 = n2"
    using aliasing by (simp add: n1_def n2_def names)
  have k: "k1 = k2"
    by (simp add: k1_def k2_def names)
  have sE1: "shape g (length h) =
      Some (n1 @ ''Edge'', [(''node'', Inr (name (g ! t)), False, False),
                            (''cursor'', Inl T_STRING, False, True)])"
    by (rule shape_edge[OF bounds(1) lt_g(1)]) (simp add: at_h(3) E1_def)
  have sE2: "shape g (length H) =
      Some (n2 @ ''Edge'', [(''node'', Inr (name (g ! t')), False, False),
                            (''cursor'', Inl T_STRING, False, True)])"
    by (rule shape_edge[OF bounds(3) lt_g(2)]) (simp add: at_H(3) E2_def)
  have sC1: "shape g (Suc (length h)) =
      Some (n1 @ ''Connection'',
            object_literal
              [(''pageInfo'', Inr (name (g ! 0)), False, True),
               (''edges'', Inr (name (g ! length h)), True, False),
               (''totalCount'', Inl T_INT, False, False),
               (k1, Inr (name (g ! t)), True, False)])"
    by (rule shape_connection[OF bounds(2) bounds(1) lt_g(1)]) (simp add: at_h(4) C1_def)
  have sC2: "shape g (Suc (length H)) =
      Some (n2 @ ''Connection'',
            object_literal
              [(''pageInfo'', Inr (name (g ! 0)), False, True),
               (''edges'', Inr (name (g ! length H)), True, False),
               (''totalCount'', Inl T_INT, False, False),
               (k2, Inr (name (g ! t')), True, False)])"
    by (rule shape_connection[OF bounds(4) bounds(3) lt_g(2)]) (simp add: at_H(4) C2_def)
  have same: "equal_by_value g (length h) (length H)"
    "equal_by_value g (Suc (length h)) (Suc (length H))"
    by (simp_all add: equal_by_value_def sE1 sE2 sC1 sC2 at n k names E1_def E2_def)
  show ?thesis
    using same later by (simp add: twice same_shapes_def distinct_instances_def)
qed

theorem generate_twice_same_shapes_witness:
  "pairs_equal_by_value
     (generate_twice pluralize_s example_heap \<lparr>base = 3, target = 3\<rparr> []
        \<lparr>base = 4, target = 4\<rparr>)
     \<lparr>base = 3, target = 3\<rparr> \<lparr>base = 4, target = 4\<rparr> \<and>
   ((3::nat) = 3) = ((4::nat) = 4) \<and>
   same_shapes
     (generate_twice pluralize_s example_heap \<lparr>base = 3, target = 3\<rparr> []
        \<lparr>base = 4, target = 4\<rparr>) \<and>
   distinct_instances
     (generate_twice pluralize_s example_heap \<lparr>base = 3, target = 3\<rparr> []
        \<lparr>base = 4, target = 4\<rparr>)"
proof -
  have p: "pairs_equal_by_value
     (generate_twice pluralize_s example_heap \<lparr>base = 3, target = 3\<rparr> []
        \<lparr>base = 4, target = 4\<rparr>)
     \<lparr>base = 3, target = 3\<rparr> \<lparr>base = 4, target = 4\<rparr>"
    by code_simp
  have a: "((3::nat) = 3) = ((4::nat) = 4)"
    by simp
  show ?thesis
    using p a generate_twice_same_shapes[where pl = pluralize_s, OF p a] by blast
qed

subsection \<open>Frame and totality\<close>

text \<open>
  C9. \<open>generateEdge\<close> and \<open>generateConnection\<close> change no descriptor: the store that each
  returns holds every descriptor of the store it was called in, at the same address and
  with the same name and fields; in particular the base \<open>b\<close> and the target \<open>t\<close>.
\<close>

theorem generators_leave_descriptors_unchanged:
  assumes "valid h ed" and "valid h b" and "valid h t"
  shows "(\<exists>e h1. generateEdge pl h \<lparr>base = b, target = t\<rparr> = Inr (e, h1) \<and>
                  take (length h) h1 = h \<and> h1 ! b = h ! b \<and> h1 ! t = h ! t) \<and>
         (\<exists>c h2. generateConnection pl h ed \<lparr>base = b, target = t\<rparr> = Inr (c, h2) \<and>
                  take (length h) h2 = h \<and> h2 ! b = h ! b \<and> h2 ! t = h ! t)"
proof -
  have lt: "b < length h" "t < length h"
    using assms(2,3) by (simp_all add: valid_def)
  then show ?thesis
    by (simp add: generateEdge_Inr[OF assms(2,3)] generateConnection_Inr[OF assms]
        nth_append)
qed

theorem generators_leave_descriptors_unchanged_witness:
  "valid example_heap 6 \<and> valid example_heap 1 \<and> valid example_heap 5 \<and>
   (\<exists>e h1. generateEdge pluralize_s example_heap \<lparr>base = 1, target = 5\<rparr> = Inr (e, h1) \<and>
           take (length example_heap) h1 = example_heap \<and>
           h1 ! 1 = example_heap ! 1 \<and> h1 ! 5 = example_heap ! 5) \<and>
   (\<exists>c h2. generateConnection pluralize_s example_heap 6 \<lparr>base = 1, target = 5\<rparr> =
             Inr (c, h2) \<and>
           take (length example_heap) h2 = example_heap \<and>
           h2 ! 1 = example_heap ! 1 \<and> h2 ! 5 = example_heap ! 5)"
proof -
  have v: "valid example_heap 6" "valid example_heap 1" "valid example_heap 5"
    by (rule example_heap_valid)+
  show ?thesis
    using v generators_leave_descriptors_unchanged[where pl = pluralize_s, OF v] by blast
qed

text \<open>
  C10. On descriptors of the store (the base \<open>b\<close>, the target \<open>t\<close> and, for
  \<open>generateConnection\<close>, the Edge \<open>ed\<close>), the naming function, \<open>generateEdge\<close>,
  \<open>generateConnection\<close> and \<open>generateConnectionAndEdge\<close> each return a result and no error.
\<close>

theorem generators_total:
  assumes "valid h ed" and "valid h b" and "valid h t"
  shows "(\<exists>n. obtainName pl h s \<lparr>base = b, target = t\<rparr> = Inr n) \<and>
         (\<exists>r. generateEdge pl h \<lparr>base = b, target = t\<rparr> = Inr r) \<and>
         (\<exists>r. generateConnection pl h ed \<lparr>base = b, target = t\<rparr> = Inr r) \<and>
         (\<exists>r. generateConnectionAndEdge pl h \<lparr>base = b, target = t\<rparr> = Inr r)"
  by (simp add: obtainName_Inr[OF assms(2,3)] generateEdge_Inr[OF assms(2,3)]
      generateConnection_Inr[OF assms] generateConnectionAndEdge_Inr[OF assms(2,3)])

theorem generators_total_witness:
  "valid example_heap 6 \<and> valid example_heap 1 \<and> valid example_heap 5 \<and>
   (\<exists>n. obtainName pluralize_s example_heap ''Edge'' \<lparr>base = 1, target = 5\<rparr> = Inr n) \<and>
   (\<exists>r. generateEdge pluralize_s example_heap \<lparr>base = 1, target = 5\<rparr> = Inr r) \<and>
   (\<exists>r. generateConnection pluralize_s example_heap 6 \<lparr>base = 1, target = 5\<rparr> = Inr r) \<and>
   (\<exists>r. generateConnectionAndEdge pluralize_s example_heap \<lparr>base = 1, target = 5\<rparr> = Inr r)"
proof -
  have v: "valid example_heap 6" "valid example_heap 1" "valid example_heap 5"
    by (rule example_heap_valid)+
  show ?thesis
    using v generators_total[where pl = pluralize_s and s = "''Edge''", OF v] by blast
qed

end
